theory Spec2Isabelle
  imports Main "HOL-Library.Word"
begin

section \<open>The index buffer of SFML/Graphics/IndexBuffer.cpp\<close>

text \<open>
  The class keeps three members (\<open>m_buffer\<close>, \<open>m_size\<close>, \<open>m_usage\<close>) and drives an OpenGL
  buffer object through \<open>glGenBuffers\<close>, \<open>glBindBuffer\<close>, \<open>glBufferData\<close>,
  \<open>glBufferSubData\<close>, \<open>glCopyBufferSubData\<close>, \<open>glMapBuffer\<close> and \<open>glUnmapBuffer\<close>.
  The members are a record, the device is an explicit state that every member function
  takes and returns, and a read through a null or too short pointer is a value of type
  \<open>fault\<close>.

  \<open>glCheck\<close> only reports the device's error flag and \<open>TransientContextLock\<close> only makes
  a context current; neither changes the state kept here. The messages written to
  \<open>err()\<close> are not kept either.

  Integer widths are those of an LP64 build: \<open>unsigned int\<close> and \<open>GLuint\<close> have 32 bits,
  \<open>std::size_t\<close> has 64 bits and wraps, \<open>GLsizeiptr\<close> and \<open>GLintptr\<close> are signed 64-bit
  values (a \<open>static_cast\<close> from \<open>std::size_t\<close> is \<open>sint\<close>).
\<close>

type_synonym GLuint = "32 word"
type_synonym size_t = "64 word"

subsection \<open>The device\<close>

datatype Usage = Stream | Dynamic | Static

datatype GLusage = GL_STREAM_DRAW | GL_DYNAMIC_DRAW | GL_STATIC_DRAW

datatype GLtarget = GL_ELEMENT_ARRAY_BUFFER | GL_COPY_READ_BUFFER | GL_COPY_WRITE_BUFFER

text \<open>
  A buffer object: its data store, the usage it was allocated with and whether it is
  mapped. The class only ever passes byte sizes and byte offsets that are multiples of
  \<open>sizeof(GLuint)\<close>, so a data store is kept as the list of the indices it holds.
\<close>

record BufferObject =
  data_store :: "GLuint list"
  usage_hint :: GLusage
  is_mapped :: bool

text \<open>
  The device: the buffer objects by name, the buffer bound to each target, whether the
  copy-buffer extension is present, the names \<open>glGenBuffers\<close> will hand out next (none
  left: generation fails and the output variable is not written) and the values the
  next successful calls of \<open>glUnmapBuffer\<close> will return (\<open>False\<close>: the store was corrupted
  while it was mapped; none left: \<open>True\<close>).
\<close>

record Device =
  objects :: "GLuint \<Rightarrow> BufferObject option"
  binding :: "GLtarget \<Rightarrow> GLuint"
  GLEXT_copy_buffer :: bool
  gen_names :: "GLuint list"
  unmap_status :: "bool list"

datatype fault = NullPointer | OutOfBounds

definition sizeof_GLuint :: size_t where
  "sizeof_GLuint = 4"

text \<open>The number of whole indices in a non-negative byte count.\<close>

definition indices_in :: "int \<Rightarrow> nat" where
  "indices_in bytes = nat bytes div 4"

definition glGenBuffers :: "Device \<Rightarrow> GLuint \<Rightarrow> GLuint \<times> Device" where
  "glGenBuffers dev out =
     (case gen_names dev of
        [] \<Rightarrow> (out, dev)
      | name # rest \<Rightarrow> (name, dev\<lparr>gen_names := rest\<rparr>))"

text \<open>Binding a name that has no object yet creates an empty, unmapped one.\<close>

definition glBindBuffer :: "Device \<Rightarrow> GLtarget \<Rightarrow> GLuint \<Rightarrow> Device" where
  "glBindBuffer dev target name =
     (let dev1 = dev\<lparr>binding := (binding dev)(target := name)\<rparr>
      in if name \<noteq> 0 \<and> objects dev name = None
         then dev1\<lparr>objects := (objects dev)(name \<mapsto>
                \<lparr>data_store = [], usage_hint = GL_STATIC_DRAW, is_mapped = False\<rparr>)\<rparr>
         else dev1)"

text \<open>
  \<open>glBufferData\<close> with a null data pointer: a fresh zero-filled store of the given size
  replaces the old one (and its mapping). With no buffer bound, or a negative size, the
  call is an error and is ignored. The device is taken to have the memory asked for.
\<close>

definition glBufferData :: "Device \<Rightarrow> GLtarget \<Rightarrow> int \<Rightarrow> GLusage \<Rightarrow> Device" where
  "glBufferData dev target bytes usage =
     (let name = binding dev target
      in if name = 0 \<or> bytes < 0 then dev
         else case objects dev name of
                None \<Rightarrow> dev
              | Some bo \<Rightarrow> dev\<lparr>objects := (objects dev)(name \<mapsto>
                  \<lparr>data_store = replicate (indices_in bytes) 0, usage_hint = usage,
                   is_mapped = False\<rparr>)\<rparr>)"

text \<open>
  \<open>glBufferSubData\<close>: the range must lie inside the store and the buffer must not be
  mapped, else the call is an error and is ignored. A valid call reads \<open>bytes\<close> bytes
  through the data pointer; an array that is shorter is read out of bounds.
\<close>

definition glBufferSubData ::
  "Device \<Rightarrow> GLtarget \<Rightarrow> int \<Rightarrow> int \<Rightarrow> GLuint list \<Rightarrow> fault + Device" where
  "glBufferSubData dev target offset bytes arr =
     (let name = binding dev target
      in if name = 0 \<or> offset < 0 \<or> bytes < 0 then Inr dev
         else case objects dev name of
                None \<Rightarrow> Inr dev
              | Some bo \<Rightarrow>
                  if offset + bytes > 4 * int (length (data_store bo)) \<or> is_mapped bo
                  then Inr dev
                  else if length arr < indices_in bytes then Inl OutOfBounds
                  else Inr (dev\<lparr>objects := (objects dev)(name \<mapsto>
                         bo\<lparr>data_store :=
                              take (indices_in offset) (data_store bo)
                              @ take (indices_in bytes) arr
                              @ drop (indices_in offset + indices_in bytes) (data_store bo)\<rparr>)\<rparr>))"

text \<open>
  \<open>glCopyBufferSubData\<close>: both ranges must lie inside their stores, neither buffer may
  be mapped, and a copy inside one buffer must not overlap; else the call is an error
  and is ignored.
\<close>

definition glCopyBufferSubData ::
  "Device \<Rightarrow> GLtarget \<Rightarrow> GLtarget \<Rightarrow> int \<Rightarrow> int \<Rightarrow> int \<Rightarrow> Device" where
  "glCopyBufferSubData dev readTarget writeTarget readOffset writeOffset bytes =
     (let r = binding dev readTarget; w = binding dev writeTarget
      in if r = 0 \<or> w = 0 \<or> readOffset < 0 \<or> writeOffset < 0 \<or> bytes < 0 then dev
         else case (objects dev r, objects dev w) of
                (Some src, Some dst) \<Rightarrow>
                  if readOffset + bytes > 4 * int (length (data_store src))
                     \<or> writeOffset + bytes > 4 * int (length (data_store dst))
                     \<or> is_mapped src \<or> is_mapped dst
                     \<or> (r = w \<and> \<bar>readOffset - writeOffset\<bar> < bytes)
                  then dev
                  else dev\<lparr>objects := (objects dev)(w \<mapsto>
                         dst\<lparr>data_store :=
                               take (indices_in writeOffset) (data_store dst)
                               @ take (indices_in bytes)
                                    (drop (indices_in readOffset) (data_store src))
                               @ drop (indices_in writeOffset + indices_in bytes)
                                    (data_store dst)\<rparr>)\<rparr>
              | _ \<Rightarrow> dev)"

text \<open>
  \<open>glMapBuffer\<close> returns a pointer to the store of the bound buffer (here: the name of
  that buffer), or the null pointer when nothing is bound or the buffer is mapped
  already.
\<close>

definition glMapBuffer :: "Device \<Rightarrow> GLtarget \<Rightarrow> GLuint option \<times> Device" where
  "glMapBuffer dev target =
     (let name = binding dev target
      in if name = 0 then (None, dev)
         else case objects dev name of
                None \<Rightarrow> (None, dev)
              | Some bo \<Rightarrow>
                  if is_mapped bo then (None, dev)
                  else (Some name, dev\<lparr>objects := (objects dev)(name \<mapsto>
                          bo\<lparr>is_mapped := True\<rparr>)\<rparr>))"

text \<open>
  \<open>glUnmapBuffer\<close> returns \<open>GL_FALSE\<close> when the bound buffer is not mapped, and otherwise
  unmaps it and returns the next status the device reports.
\<close>

definition glUnmapBuffer :: "Device \<Rightarrow> GLtarget \<Rightarrow> bool \<times> Device" where
  "glUnmapBuffer dev target =
     (let name = binding dev target
      in if name = 0 then (False, dev)
         else case objects dev name of
                None \<Rightarrow> (False, dev)
              | Some bo \<Rightarrow>
                  if \<not> is_mapped bo then (False, dev)
                  else
                    (let dev1 = dev\<lparr>objects := (objects dev)(name \<mapsto>
                                  bo\<lparr>is_mapped := False\<rparr>)\<rparr>
                     in case unmap_status dev of
                          [] \<Rightarrow> (True, dev1)
                        | ok # rest \<Rightarrow> (ok, dev1\<lparr>unmap_status := rest\<rparr>)))"

text \<open>
  \<open>std::memcpy\<close> between two mapped stores. The two pointers never denote the same
  store, since \<open>glMapBuffer\<close> does not map a buffer twice.
\<close>

definition memcpy :: "Device \<Rightarrow> GLuint option \<Rightarrow> GLuint option \<Rightarrow> size_t \<Rightarrow> fault + Device" where
  "memcpy dev destination source bytes =
     (case (destination, source) of
        (Some d, Some s) \<Rightarrow>
          (case (objects dev d, objects dev s) of
             (Some dst, Some src) \<Rightarrow>
               (let n = unat bytes div 4
                in if n > length (data_store src) \<or> n > length (data_store dst)
                   then Inl OutOfBounds
                   else Inr (dev\<lparr>objects := (objects dev)(d \<mapsto>
                          dst\<lparr>data_store := take n (data_store src)
                                              @ drop n (data_store dst)\<rparr>)\<rparr>))
           | _ \<Rightarrow> Inl NullPointer)
      | _ \<Rightarrow> Inl NullPointer)"

subsection \<open>The class\<close>

record IndexBuffer =
  m_buffer :: GLuint
  m_size :: size_t
  m_usage :: Usage

fun usageToGlEnum :: "Usage \<Rightarrow> GLusage" where
  "usageToGlEnum Static = GL_STATIC_DRAW"
| "usageToGlEnum Dynamic = GL_DYNAMIC_DRAW"
| "usageToGlEnum Stream = GL_STREAM_DRAW"

definition isAvailable :: bool where
  "isAvailable = True"

definition IndexBuffer_usage :: "Usage \<Rightarrow> IndexBuffer" where
  "IndexBuffer_usage usage = \<lparr>m_buffer = 0, m_size = 0, m_usage = usage\<rparr>"

definition getIndexCount :: "IndexBuffer \<Rightarrow> size_t" where
  "getIndexCount this = m_size this"

definition getNativeHandle :: "IndexBuffer \<Rightarrow> GLuint" where
  "getNativeHandle this = m_buffer this"

definition getUsage :: "IndexBuffer \<Rightarrow> Usage" where
  "getUsage this = m_usage this"

definition create :: "Device \<Rightarrow> IndexBuffer \<Rightarrow> size_t \<Rightarrow> bool \<times> IndexBuffer \<times> Device" where
  "create dev this indexCount =
     (if \<not> isAvailable then (False, this, dev)
      else
        let (name, dev1) = (if m_buffer this = 0 then glGenBuffers dev (m_buffer this)
                            else (m_buffer this, dev));
            this1 = this\<lparr>m_buffer := name\<rparr>
        in if m_buffer this1 = 0 then (False, this1, dev1)
           else
             let dev2 = glBindBuffer dev1 GL_ELEMENT_ARRAY_BUFFER (m_buffer this1);
                 dev3 = glBufferData dev2 GL_ELEMENT_ARRAY_BUFFER
                          (sint (sizeof_GLuint * indexCount)) (usageToGlEnum (m_usage this1));
                 dev4 = glBindBuffer dev3 GL_ELEMENT_ARRAY_BUFFER 0
             in (True, this1\<lparr>m_size := indexCount\<rparr>, dev4))"

text \<open>The two guards of \<open>update(indices, indexCount, offset)\<close>, as the source writes them.\<close>

definition out_of_range :: "size_t \<Rightarrow> size_t \<Rightarrow> 32 word \<Rightarrow> bool" where
  "out_of_range capacity indexCount offset \<longleftrightarrow>
     offset \<noteq> 0 \<and> ucast offset + indexCount > capacity"

definition needs_resize :: "size_t \<Rightarrow> size_t \<Rightarrow> bool" where
  "needs_resize capacity indexCount \<longleftrightarrow> indexCount \<ge> capacity"

text \<open>
  \<open>update(indices, indexCount, offset)\<close>; \<open>indices\<close> is \<open>None\<close> for the null pointer and
  otherwise the array it points to.
\<close>

definition update ::
  "Device \<Rightarrow> IndexBuffer \<Rightarrow> GLuint list option \<Rightarrow> size_t \<Rightarrow> 32 word
     \<Rightarrow> fault + (bool \<times> IndexBuffer \<times> Device)" where
  "update dev this indices indexCount offset =
     (if m_buffer this = 0 then Inr (False, this, dev)
      else case indices of
        None \<Rightarrow> Inr (False, this, dev)
      | Some arr \<Rightarrow>
          if out_of_range (m_size this) indexCount offset then Inr (False, this, dev)
          else
            let dev1 = glBindBuffer dev GL_ELEMENT_ARRAY_BUFFER (m_buffer this);
                (this1, dev2) =
                  (if needs_resize (m_size this) indexCount
                   then (this\<lparr>m_size := indexCount\<rparr>,
                         glBufferData dev1 GL_ELEMENT_ARRAY_BUFFER
                           (sint (sizeof_GLuint * indexCount)) (usageToGlEnum (m_usage this)))
                   else (this, dev1))
            in (case glBufferSubData dev2 GL_ELEMENT_ARRAY_BUFFER
                       (sint (sizeof_GLuint * ucast offset))
                       (sint (sizeof_GLuint * indexCount)) arr of
                  Inl f \<Rightarrow> Inl f
                | Inr dev3 \<Rightarrow>
                    Inr (True, this1, glBindBuffer dev3 GL_ELEMENT_ARRAY_BUFFER 0)))"


text \<open>
  \<open>update(indexBuffer)\<close>, the buffer-to-buffer copy. \<open>opengl_es\<close> is the build flag
  \<open>SFML_OPENGL_ES\<close>.
\<close>

definition update_buffer ::
  "bool \<Rightarrow> Device \<Rightarrow> IndexBuffer \<Rightarrow> IndexBuffer \<Rightarrow> fault + (bool \<times> IndexBuffer \<times> Device)" where
  "update_buffer opengl_es dev this indexBuffer =
     (if opengl_es then Inr (False, this, dev)
      else if m_buffer this = 0 \<or> m_buffer indexBuffer = 0 then Inr (False, this, dev)
      else if GLEXT_copy_buffer dev then
        let dev1 = glBindBuffer dev GL_COPY_READ_BUFFER (m_buffer indexBuffer);
            dev2 = glBindBuffer dev1 GL_COPY_WRITE_BUFFER (m_buffer this);
            dev3 = glCopyBufferSubData dev2 GL_COPY_READ_BUFFER GL_COPY_WRITE_BUFFER 0 0
                     (sint (sizeof_GLuint * m_size indexBuffer));
            dev4 = glBindBuffer dev3 GL_COPY_WRITE_BUFFER 0;
            dev5 = glBindBuffer dev4 GL_COPY_READ_BUFFER 0
        in Inr (True, this, dev5)
      else
        let dev1 = glBindBuffer dev GL_ELEMENT_ARRAY_BUFFER (m_buffer this);
            dev2 = glBufferData dev1 GL_ELEMENT_ARRAY_BUFFER
                     (sint (sizeof_GLuint * m_size indexBuffer)) (usageToGlEnum (m_usage this));
            (destination, dev3) = glMapBuffer dev2 GL_ELEMENT_ARRAY_BUFFER;
            dev4 = glBindBuffer dev3 GL_ELEMENT_ARRAY_BUFFER (m_buffer indexBuffer);
            (source, dev5) = glMapBuffer dev4 GL_ELEMENT_ARRAY_BUFFER
        in case memcpy dev5 destination source (sizeof_GLuint * m_size indexBuffer) of
             Inl f \<Rightarrow> Inl f
           | Inr dev6 \<Rightarrow>
               let (sourceResult, dev7) = glUnmapBuffer dev6 GL_ELEMENT_ARRAY_BUFFER;
                   dev8 = glBindBuffer dev7 GL_ELEMENT_ARRAY_BUFFER (m_buffer this);
                   (destinationResult, dev9) = glUnmapBuffer dev8 GL_ELEMENT_ARRAY_BUFFER;
                   dev10 = glBindBuffer dev9 GL_ELEMENT_ARRAY_BUFFER 0
               in if \<not> sourceResult \<or> \<not> destinationResult then Inr (False, this, dev10)
                  else Inr (True, this, dev10))"

text \<open>The copy constructor.\<close>

definition IndexBuffer_copy ::
  "bool \<Rightarrow> Device \<Rightarrow> IndexBuffer \<Rightarrow> fault + (IndexBuffer \<times> Device)" where
  "IndexBuffer_copy opengl_es dev copy =
     (let this = \<lparr>m_buffer = 0, m_size = 0, m_usage = m_usage copy\<rparr>
      in if m_buffer copy \<noteq> 0 \<and> m_size copy \<noteq> 0 then
           (case create dev this (m_size copy) of
              (created, this1, dev1) \<Rightarrow>
                if \<not> created then Inr (this1, dev1)
                else (case update_buffer opengl_es dev1 this1 copy of
                        Inl f \<Rightarrow> Inl f
                      | Inr (copied, this2, dev2) \<Rightarrow> Inr (this2, dev2)))
         else Inr (this, dev))"

subsection \<open>Observations and well-formed inputs\<close>

text \<open>The indices held on the device by the buffer object a handle names.\<close>

definition contents :: "Device \<Rightarrow> IndexBuffer \<Rightarrow> GLuint list" where
  "contents dev this =
     (case objects dev (m_buffer this) of None \<Rightarrow> [] | Some bo \<Rightarrow> data_store bo)"

text \<open>
  An allocated buffer: the handle is not empty and names an unmapped buffer object whose
  store holds \<open>m_size\<close> indices, the byte size of which fits \<open>GLsizeiptr\<close>.
\<close>

definition allocated :: "Device \<Rightarrow> IndexBuffer \<Rightarrow> bool" where
  "allocated dev this \<longleftrightarrow>
     m_buffer this \<noteq> 0 \<and> unat (m_size this) < 2 ^ 61 \<and>
     (case objects dev (m_buffer this) of
        None \<Rightarrow> False
      | Some bo \<Rightarrow> length (data_store bo) = unat (m_size this) \<and> \<not> is_mapped bo)"

text \<open>
  The caller's side of the contract of \<open>update\<close>: the pointer refers to an array of at
  least \<open>indexCount\<close> indices. An array is an object of at most \<open>PTRDIFF_MAX\<close> bytes.
\<close>

definition readable :: "GLuint list \<Rightarrow> size_t \<Rightarrow> bool" where
  "readable arr indexCount \<longleftrightarrow> unat indexCount \<le> length arr \<and> 4 * length arr < 2 ^ 63"

text \<open>What a caller can see of a call: the return value, the members and the contents.\<close>

definition outcome ::
  "fault + (bool \<times> IndexBuffer \<times> Device) \<Rightarrow> fault + (bool \<times> IndexBuffer \<times> GLuint list)" where
  "outcome r =
     (case r of Inl f \<Rightarrow> Inl f | Inr (ok, this, dev) \<Rightarrow> Inr (ok, this, contents dev this))"

subsection \<open>A small device to run the functions on\<close>

text \<open>
  Buffer 1 holds three indices, buffer 2 holds three zeros, buffer 4 has been created
  with a count of zero, and name 3 is the next one to be generated.
\<close>

definition example_device :: "bool \<Rightarrow> bool list \<Rightarrow> Device" where
  "example_device fast status =
     \<lparr>objects = (\<lambda>name.
          if name = 1 then Some \<lparr>data_store = [7, 8, 9], usage_hint = GL_STREAM_DRAW,
                                 is_mapped = False\<rparr>
          else if name = 2 then Some \<lparr>data_store = [0, 0, 0], usage_hint = GL_STATIC_DRAW,
                                      is_mapped = False\<rparr>
          else if name = 4 then Some \<lparr>data_store = [], usage_hint = GL_STATIC_DRAW,
                                      is_mapped = False\<rparr>
          else None),
      binding = (\<lambda>target. 0),
      GLEXT_copy_buffer = fast,
      gen_names = [3],
      unmap_status = status\<rparr>"

definition buffer1 :: IndexBuffer where
  "buffer1 = \<lparr>m_buffer = 1, m_size = 3, m_usage = Stream\<rparr>"

definition buffer2 :: IndexBuffer where
  "buffer2 = \<lparr>m_buffer = 2, m_size = 3, m_usage = Static\<rparr>"

definition buffer4 :: IndexBuffer where
  "buffer4 = \<lparr>m_buffer = 4, m_size = 0, m_usage = Static\<rparr>"

section \<open>Arithmetic of byte sizes\<close>

lemmas gl_defs = glBindBuffer_def glBufferData_def glBufferSubData_def
  glCopyBufferSubData_def glMapBuffer_def glUnmapBuffer_def memcpy_def glGenBuffers_def

lemmas example_defs = example_device_def buffer1_def buffer2_def buffer4_def

lemma unat_ucast_offset: "unat (ucast (offset :: 32 word) :: 64 word) = unat offset"
proof -
  have "unat offset < 2 ^ 32" using unsigned_less [of offset] by simp
  then have "unat offset < 2 ^ 64" by simp
  then show ?thesis by (simp add: unsigned_ucast_eq take_bit_nat_eq_self)
qed

lemma unat_bytes:
  assumes "unat (n :: 64 word) < 2 ^ 61"
  shows "unat (sizeof_GLuint * n) = 4 * unat n"
proof -
  have "unat (4 :: 64 word) * unat n < 2 ^ LENGTH(64)" using assms by simp
  then have "unat (4 * n) = unat (4 :: 64 word) * unat n" by (simp only: unat_mult_lem)
  then show ?thesis by (simp add: sizeof_GLuint_def)
qed

lemma sint_small:
  assumes "unat (w :: 64 word) < 2 ^ 63"
  shows "sint w = int (unat w)"
proof -
  have up: "uint w < 2 ^ 63"
    using assms by (metis of_nat_less_numeral_power_cancel_iff of_nat_unat)
  have "(0::int) \<le> 2 ^ 63" by simp
  then have "- (2 ^ 63) \<le> (0::int)" by linarith
  also have "0 \<le> uint w" by simp
  finally have low: "- (2 ^ 63) \<le> uint w" .
  have "signed_take_bit 63 (uint w) = uint w"
    using low up by (rule signed_take_bit_int_eq_self)
  moreover have "sint w = signed_take_bit (LENGTH(64) - Suc 0) (uint w)"
    by (rule sint_uint)
  ultimately show ?thesis by simp
qed

text \<open>A count below \<open>2 ^ 61\<close> survives \<open>static_cast<GLsizeiptr>(sizeof(GLuint) * n)\<close>.\<close>

lemma sint_bytes:
  assumes "unat (n :: 64 word) < 2 ^ 61"
  shows "sint (sizeof_GLuint * n) = 4 * int (unat n)"
proof -
  have "unat (sizeof_GLuint * n) < 2 ^ 63" using assms by (simp add: unat_bytes)
  then show ?thesis using assms by (simp add: sint_small unat_bytes)
qed

lemma sint_offset_bytes:
  "sint (sizeof_GLuint * ucast (offset :: 32 word) :: 64 word) = 4 * int (unat offset)"
proof -
  have "unat offset < 2 ^ 32" using unsigned_less [of offset] by simp
  then have "unat (ucast offset :: 64 word) < 2 ^ 61" by (simp add: unat_ucast_offset)
  then show ?thesis using sint_bytes [of "ucast offset"] by (simp add: unat_ucast_offset)
qed

text \<open>The sum \<open>offset + indexCount\<close> of the range check, when it does not wrap.\<close>

lemma no_wrap:
  "unat (offset :: 32 word) + unat (indexCount :: 64 word) < 2 ^ 64 \<Longrightarrow>
   unat (ucast offset + indexCount :: 64 word) = unat offset + unat indexCount"
  using unat_add_lem [of "ucast offset :: 64 word" indexCount] by (simp add: unat_ucast_offset)


lemma indices_in_uint: "indices_in (4 * uint w) = unat w"
  by (simp add: indices_in_def nat_mult_distrib)

lemma indices_in_0: "indices_in 0 = 0"
  by (simp add: indices_in_def)

lemma uint_sum_le:
  assumes "unat a + unat b \<le> unat c"
  shows "uint a + uint b \<le> uint c"
proof -
  have "int (unat a + unat b) \<le> int (unat c)" using assms by (simp only: of_nat_le_iff)
  then show ?thesis by simp
qed

lemma readable_count: "readable arr n \<Longrightarrow> unat n < 2 ^ 61"
  by (simp add: readable_def)

lemma splice_nth:
  assumes "p + c \<le> length xs" and "c \<le> length ys" and "i < length xs"
  shows "(take p xs @ take c ys @ drop (p + c) xs) ! i
           = (if p \<le> i \<and> i < p + c then ys ! (i - p) else xs ! i)"
  using assms by (auto simp: nth_append min_def)

lemma example_allocated:
  "allocated (example_device fast status) buffer1"
  "allocated (example_device fast status) buffer2"
  "allocated (example_device fast status) buffer4"
  by (simp_all add: allocated_def example_defs)

section \<open>Shared facts about the member functions\<close>

lemma create_success:
  assumes "create dev this indexCount = (True, this1, dev1)"
  shows "m_buffer this1 \<noteq> 0 \<and> m_size this1 = indexCount \<and> m_usage this1 = m_usage this"
  using assms
  by (auto simp: create_def isAvailable_def Let_def split: if_splits prod.splits)

lemma create_failure:
  assumes "create dev this indexCount = (False, this1, dev1)"
  shows "m_buffer this = 0 \<and> this1 = this"
  using assms
  by (auto simp: create_def isAvailable_def Let_def split: if_splits prod.splits)


text \<open>\<open>update(indexBuffer)\<close> never assigns a member.\<close>

lemma update_buffer_this:
  "update_buffer opengl_es dev this indexBuffer = Inr (ok, this', dev') \<Longrightarrow> this' = this"
  by (auto simp: update_buffer_def Let_def split: if_splits sum.splits prod.splits)

text \<open>The copy through \<open>glCopyBufferSubData\<close>, between buffers of one capacity.\<close>

lemma copy_fast:
  assumes a: "allocated dev indexBuffer" and b: "allocated dev this"
    and e: "m_size this = m_size indexBuffer" and f: "GLEXT_copy_buffer dev"
  shows "\<exists>dev'. update_buffer False dev this indexBuffer = Inr (True, this, dev')
           \<and> contents dev' this = contents dev indexBuffer
           \<and> contents dev' indexBuffer = contents dev indexBuffer"
proof -
  have n: "unat (m_size indexBuffer) < 2 ^ 61" using a by (simp add: allocated_def)
  obtain src where src: "objects dev (m_buffer indexBuffer) = Some src"
      "length (data_store src) = unat (m_size indexBuffer)" "\<not> is_mapped src"
      "m_buffer indexBuffer \<noteq> 0"
    using a by (auto simp: allocated_def split: option.splits)
  obtain dst where dst: "objects dev (m_buffer this) = Some dst"
      "length (data_store dst) = unat (m_size indexBuffer)" "\<not> is_mapped dst"
      "m_buffer this \<noteq> 0"
    using b e by (auto simp: allocated_def split: option.splits)
  show ?thesis
  proof (cases "m_buffer this = m_buffer indexBuffer")
    case True
    then show ?thesis
      using src dst f
      by (simp add: update_buffer_def gl_defs Let_def sint_bytes [OF n] indices_in_uint
            indices_in_0 contents_def)
  next
    case False
    then show ?thesis
      using src dst f
      by (simp add: update_buffer_def gl_defs Let_def sint_bytes [OF n] indices_in_uint
            indices_in_0 contents_def)
  qed
qed

text \<open>
  The copy through the two mappings, into any other buffer: the store of \<open>this\<close> is
  replaced by one of the source's capacity and filled from the source, and the return
  value is the conjunction of the two statuses \<open>glUnmapBuffer\<close> reports.
\<close>

lemma copy_fallback:
  assumes a: "allocated dev indexBuffer" and h: "m_buffer this \<noteq> 0"
    and d: "m_buffer this \<noteq> m_buffer indexBuffer" and f: "\<not> GLEXT_copy_buffer dev"
  shows "\<exists>ok dev'. update_buffer False dev this indexBuffer = Inr (ok, this, dev')
           \<and> ok = (case unmap_status dev of [] \<Rightarrow> True | [s] \<Rightarrow> s | s # t # _ \<Rightarrow> s \<and> t)
           \<and> contents dev' this = contents dev indexBuffer
           \<and> contents dev' indexBuffer = contents dev indexBuffer"
proof -
  have n: "unat (m_size indexBuffer) < 2 ^ 61" using a by (simp add: allocated_def)
  obtain src where src: "objects dev (m_buffer indexBuffer) = Some src"
      "length (data_store src) = unat (m_size indexBuffer)" "\<not> is_mapped src"
      "m_buffer indexBuffer \<noteq> 0"
    using a by (auto simp: allocated_def split: option.splits)
  show ?thesis
  proof (cases "objects dev (m_buffer this)")
    case None
    then show ?thesis
      using src h d f
      by (simp add: update_buffer_def gl_defs Let_def sint_bytes [OF n] unat_bytes [OF n]
            indices_in_uint indices_in_0 contents_def split: list.splits)
  next
    case (Some dst)
    then show ?thesis
      using src h d f
      by (simp add: update_buffer_def gl_defs Let_def sint_bytes [OF n] unat_bytes [OF n]
            indices_in_uint indices_in_0 contents_def split: list.splits)
  qed
qed

text \<open>
  Copying a buffer into itself through the mappings: the second \<open>glMapBuffer\<close> returns
  the null pointer, which \<open>std::memcpy\<close> then reads.
\<close>

lemma copy_fallback_self:
  assumes h: "m_buffer this \<noteq> 0"
    and d: "m_buffer this = m_buffer indexBuffer" and f: "\<not> GLEXT_copy_buffer dev"
  shows "update_buffer False dev this indexBuffer = Inl NullPointer"
proof (cases "objects dev (m_buffer this)")
  case None
  then show ?thesis
    using h d f by (simp add: update_buffer_def gl_defs Let_def split: list.splits)
next
  case (Some dst)
  then show ?thesis
    using h d f by (simp add: update_buffer_def gl_defs Let_def split: list.splits)
qed

section \<open>The partial update\<close>








text \<open>
  C6. On an allocated buffer, with a data pointer to at least \<open>count\<close> indices,
  \<open>update(data, count, 0)\<close> with \<open>count < capacity\<close> and \<open>update(data, count, offset)\<close> with
  \<open>offset \<noteq> 0\<close> and \<open>offset + count \<le> capacity\<close> succeed; the indices at
  \<open>[offset, offset + count)\<close> become the data, every other index keeps its value, the
  store keeps its length, the members are unchanged, and no other buffer object changes.
  (With that many indices behind the pointer the sum \<open>offset + count\<close> cannot wrap.)
\<close>

theorem update_in_place:
  assumes a: "allocated dev this" and r: "readable arr indexCount"
    and p: "(offset = 0 \<and> indexCount < m_size this)
            \<or> (offset \<noteq> 0 \<and> ucast offset + indexCount \<le> m_size this)"
  shows "\<exists>dev'. update dev this (Some arr) indexCount offset = Inr (True, this, dev')
           \<and> length (contents dev' this) = length (contents dev this)
           \<and> (\<forall>i < length (contents dev this).
                 contents dev' this ! i =
                   (if unat offset \<le> i \<and> i < unat offset + unat indexCount
                    then arr ! (i - unat offset) else contents dev this ! i))
           \<and> allocated dev' this
           \<and> (\<forall>name. name \<noteq> m_buffer this \<longrightarrow> objects dev' name = objects dev name)"
proof -
  have n: "unat indexCount < 2 ^ 61" using r by (rule readable_count)
  have len: "unat indexCount \<le> length arr" using r by (simp add: readable_def)
  have m: "unat (m_size this) < 2 ^ 61" using a by (simp add: allocated_def)
  have "unat offset < 2 ^ 32" using unsigned_less [of offset] by simp
  with n have w: "unat offset + unat indexCount < 2 ^ 64" by simp
  have nowrap: "unat (ucast offset + indexCount :: 64 word) = unat offset + unat indexCount"
    using w by (rule no_wrap)
  have fit: "unat offset + unat indexCount \<le> unat (m_size this)"
    using p by (auto simp: word_less_nat_alt word_le_nat_alt nowrap)
  have lt: "indexCount < m_size this"
  proof (cases "offset = 0")
    case True then show ?thesis using p by simp
  next
    case False
    then have "unat offset \<noteq> 0" by (simp add: unat_eq_0)
    then show ?thesis using fit by (simp add: word_less_nat_alt)
  qed
  have inr: "\<not> out_of_range (m_size this) indexCount offset"
    using fit by (simp add: out_of_range_def word_less_nat_alt nowrap)
  have nr: "\<not> needs_resize (m_size this) indexCount"
    using lt by (simp add: needs_resize_def)
  have fit': "uint offset + uint indexCount \<le> uint (m_size this)"
    using fit by (rule uint_sum_le)
  obtain bo where bo: "objects dev (m_buffer this) = Some bo"
      "length (data_store bo) = unat (m_size this)" "\<not> is_mapped bo" "m_buffer this \<noteq> 0"
    using a by (auto simp: allocated_def split: option.splits)
  define st where "st = take (unat offset) (data_store bo) @ take (unat indexCount) arr
               @ drop (unat offset + unat indexCount) (data_store bo)"
  define dev' where "dev' = glBindBuffer
     ((glBindBuffer dev GL_ELEMENT_ARRAY_BUFFER (m_buffer this))
        \<lparr>objects := (objects dev)(m_buffer this \<mapsto> bo\<lparr>data_store := st\<rparr>)\<rparr>)
     GL_ELEMENT_ARRAY_BUFFER 0"
  have run: "update dev this (Some arr) indexCount offset = Inr (True, this, dev')"
    using bo fit' len
    by (simp add: update_def inr nr gl_defs Let_def sint_bytes [OF n] sint_offset_bytes
          indices_in_uint dev'_def st_def)
  have obj: "objects dev' = (objects dev)(m_buffer this \<mapsto> bo\<lparr>data_store := st\<rparr>)"
    using bo by (simp add: dev'_def gl_defs Let_def)
  have c0: "contents dev this = data_store bo" using bo by (simp add: contents_def)
  have c1: "contents dev' this = st" by (simp add: contents_def obj)
  have l: "length st = length (data_store bo)" using bo fit len by (simp add: st_def)
  have nth: "\<forall>i < length (data_store bo). st ! i =
      (if unat offset \<le> i \<and> i < unat offset + unat indexCount
       then arr ! (i - unat offset) else data_store bo ! i)"
    unfolding st_def using bo fit len by (intro allI impI splice_nth) simp_all
  have al: "allocated dev' this"
    using bo m l by (simp add: allocated_def obj)
  show ?thesis
    using run l nth al by (intro exI [of _ dev']) (simp add: c0 c1 obj)
qed

theorem update_in_place_witness:
  "allocated (example_device False []) buffer1 \<and> readable [1, 2] 2
   \<and> (\<exists>dev'. update (example_device False []) buffer1 (Some [1, 2]) 2 1
                 = Inr (True, buffer1, dev')
          \<and> contents dev' buffer1 ! 0 = 7 \<and> contents dev' buffer1 ! 1 = 1
          \<and> contents dev' buffer1 ! 2 = 2 \<and> length (contents dev' buffer1) = 3)"
proof -
  have a: "allocated (example_device False []) buffer1" by (rule example_allocated)
  have r: "readable [1, 2] 2" by (simp add: readable_def)
  have p: "((1 :: 32 word) = 0 \<and> 2 < m_size buffer1)
             \<or> ((1 :: 32 word) \<noteq> 0 \<and> ucast (1 :: 32 word) + 2 \<le> m_size buffer1)"
    by (simp add: buffer1_def)
  have c: "contents (example_device False []) buffer1 = [7, 8, 9]"
    by (simp add: contents_def example_defs)
  from update_in_place [OF a r p] obtain dev' where
    run: "update (example_device False []) buffer1 (Some [1, 2]) 2 1 = Inr (True, buffer1, dev')"
    and len: "length (contents dev' buffer1) = length (contents (example_device False []) buffer1)"
    and nth: "\<forall>i < length (contents (example_device False []) buffer1).
                contents dev' buffer1 ! i =
                  (if unat (1 :: 32 word) \<le> i \<and> i < unat (1 :: 32 word) + unat (2 :: 64 word)
                   then [1, 2] ! (i - unat (1 :: 32 word))
                   else contents (example_device False []) buffer1 ! i)"
    by blast
  have "contents dev' buffer1 ! 0 = 7" using nth [rule_format, of 0] by (simp add: c)
  moreover have "contents dev' buffer1 ! 1 = 1" using nth [rule_format, of 1] by (simp add: c)
  moreover have "contents dev' buffer1 ! 2 = 2" using nth [rule_format, of 2] by (simp add: c)
  moreover have "length (contents dev' buffer1) = 3" using len by (simp add: c)
  ultimately show ?thesis using a r run by blast
qed




section \<open>Updates after \<open>create(0)\<close>\<close>




section \<open>The buffer-to-buffer copy\<close>

text \<open>
  C8. Whenever \<open>update(indexBuffer)\<close> returns, with success or with failure, the element
  count, the handle and the usage of \<open>this\<close> are what they were before the call. That
  holds in particular on the path through the mappings, where the device store of
  \<open>this\<close> has been replaced by one of the source's capacity.
\<close>

theorem update_buffer_keeps_members:
  assumes r: "update_buffer opengl_es dev this indexBuffer = Inr (ok, this', dev')"
  shows "getIndexCount this' = getIndexCount this
         \<and> getNativeHandle this' = getNativeHandle this
         \<and> getUsage this' = getUsage this
         \<and> (\<not> opengl_es \<and> \<not> GLEXT_copy_buffer dev \<and> m_buffer this \<noteq> 0
              \<and> allocated dev indexBuffer
              \<longrightarrow> length (contents dev' this') = unat (getIndexCount indexBuffer))"
proof -
  have k: "this' = this" using r by (rule update_buffer_this)
  have "length (contents dev' this') = unat (getIndexCount indexBuffer)"
    if es: "\<not> opengl_es" and f: "\<not> GLEXT_copy_buffer dev" and h: "m_buffer this \<noteq> 0"
      and a: "allocated dev indexBuffer"
  proof -
    have d: "m_buffer this \<noteq> m_buffer indexBuffer"
    proof
      assume "m_buffer this = m_buffer indexBuffer"
      from copy_fallback_self [OF h this f] r es show False by simp
    qed
    have "length (contents dev indexBuffer) = unat (m_size indexBuffer)"
      using a by (auto simp: allocated_def contents_def split: option.splits)
    with copy_fallback [OF a h d f] r es k show ?thesis
      by (auto simp: getIndexCount_def)
  qed
  with k show ?thesis by blast
qed

theorem update_buffer_keeps_members_witness:
  "\<exists>dev'. update_buffer False (example_device False []) buffer4 buffer1
            = Inr (True, buffer4, dev')
        \<and> getIndexCount buffer4 = 0 \<and> length (contents dev' buffer4) = 3"
proof -
  have "\<exists>dev'. update_buffer False (example_device False []) buffer4 buffer1
            = Inr (True, buffer4, dev')"
    by (simp add: update_buffer_def gl_defs example_defs sizeof_GLuint_def
          indices_in_def Let_def)
  then obtain dev' where r: "update_buffer False (example_device False []) buffer4 buffer1
            = Inr (True, buffer4, dev')" ..
  have f: "\<not> GLEXT_copy_buffer (example_device False [])" by (simp add: example_defs)
  have h: "m_buffer buffer4 \<noteq> 0" by (simp add: example_defs)
  have n: "unat (getIndexCount buffer1) = 3" by (simp add: getIndexCount_def example_defs)
  from update_buffer_keeps_members [OF r] f h example_allocated(1) [of False "[]"] n
  have "length (contents dev' buffer4) = 3" by simp
  moreover have "getIndexCount buffer4 = 0" by (simp add: getIndexCount_def example_defs)
  ultimately show ?thesis using r by blast
qed

text \<open>
  C2. For an allocated buffer A with contents X, a successful \<open>B.update(A)\<close> should
  leave B with A's capacity and with contents X, on the copy-buffer path and on the path
  through the mappings. The code does not do so. With A = buffer 1 (capacity 3, contents
  7, 8, 9) and B = buffer 4 (created with a count of zero) the call returns success on
  both paths. With the copy-buffer extension the device refuses the copy and B stays
  empty; through the mappings the store of B is reallocated and receives X. On neither
  path does the element count of B become 3: it stays 0.
\<close>

theorem copy_into_other_capacity:
  "allocated (example_device True []) buffer1
   \<and> contents (example_device True []) buffer1 = [7, 8, 9]
   \<and> getIndexCount buffer1 = 3
   \<and> outcome (update_buffer False (example_device True []) buffer4 buffer1)
       = Inr (True, buffer4, [])
   \<and> outcome (update_buffer False (example_device False []) buffer4 buffer1)
       = Inr (True, buffer4, [7, 8, 9])
   \<and> getIndexCount buffer4 = 0"
  by (simp add: outcome_def update_buffer_def gl_defs example_defs contents_def
        sizeof_GLuint_def indices_in_def Let_def allocated_def getIndexCount_def)

theorem copy_into_other_capacity_witness:
  "outcome (update_buffer False (example_device True []) buffer4 buffer1)
     = Inr (True, buffer4, [])
   \<and> outcome (update_buffer False (example_device False []) buffer4 buffer1)
     = Inr (True, buffer4, [7, 8, 9])
   \<and> getIndexCount buffer4 \<noteq> getIndexCount buffer1
   \<and> contents (example_device True []) buffer1 \<noteq> []"
  using copy_into_other_capacity by simp

section \<open>The copy constructor\<close>

text \<open>
  C10. Copy-constructing from a source whose handle is not empty and whose capacity is
  0 calls neither \<open>create\<close> nor \<open>update\<close>: the device is untouched and the new instance
  has an empty handle, capacity 0 and the source's usage.
\<close>

theorem copy_of_zero_capacity:
  "m_buffer copy \<noteq> 0 \<Longrightarrow> m_size copy = 0 \<Longrightarrow>
   IndexBuffer_copy opengl_es dev copy
     = Inr (\<lparr>m_buffer = 0, m_size = 0, m_usage = m_usage copy\<rparr>, dev)"
  by (simp add: IndexBuffer_copy_def)

theorem copy_of_zero_capacity_witness:
  "m_buffer buffer4 \<noteq> 0 \<and> m_size buffer4 = 0
   \<and> IndexBuffer_copy False (example_device True []) buffer4
       = Inr (\<lparr>m_buffer = 0, m_size = 0, m_usage = Static\<rparr>, example_device True [])"
  using copy_of_zero_capacity [of buffer4 False "example_device True []"]
  by (simp add: buffer4_def)

text \<open>
  A copy of buffer 1 on a device without the copy-buffer extension, where the first
  \<open>glUnmapBuffer\<close> reports a corrupted store: \<open>create(3)\<close> succeeds with handle 3,
  \<open>update(copy)\<close> returns failure, and the constructed instance keeps handle 3 and
  capacity 3.
\<close>

theorem failed_copy_keeps_resource:
  "fst (create (example_device False [False]) (IndexBuffer_usage Stream) 3)
   \<and> fst (snd (create (example_device False [False]) (IndexBuffer_usage Stream) 3))
       = \<lparr>m_buffer = 3, m_size = 3, m_usage = Stream\<rparr>
   \<and> outcome (update_buffer False
                 (snd (snd (create (example_device False [False]) (IndexBuffer_usage Stream) 3)))
                 \<lparr>m_buffer = 3, m_size = 3, m_usage = Stream\<rparr> buffer1)
       = Inr (False, \<lparr>m_buffer = 3, m_size = 3, m_usage = Stream\<rparr>, [7, 8, 9])
   \<and> map_sum id fst (IndexBuffer_copy False (example_device False [False]) buffer1)
       = Inr \<lparr>m_buffer = 3, m_size = 3, m_usage = Stream\<rparr>"
  by (simp add: outcome_def create_def isAvailable_def IndexBuffer_usage_def IndexBuffer_copy_def
        update_buffer_def gl_defs example_defs contents_def sizeof_GLuint_def indices_in_def
        Let_def)

text \<open>
  C3, in the form that holds. For a copy-construction from a source with a handle and a
  capacity other than 0: if the creation of the resource fails, the constructed instance has the
  source's usage, an empty handle and capacity 0; if the creation succeeds and the
  buffer-to-buffer copy then returns failure, the constructed instance has the source's
  usage and keeps the created handle, with a capacity equal to the source's.
\<close>

theorem copy_failure_stages:
  assumes h: "m_buffer copy \<noteq> 0" and s: "m_size copy \<noteq> 0"
    and c: "create dev (IndexBuffer_usage (m_usage copy)) (m_size copy) = (created, this1, dev1)"
  shows "(\<not> created \<longrightarrow>
            IndexBuffer_copy opengl_es dev copy = Inr (IndexBuffer_usage (m_usage copy), dev1)
            \<and> getNativeHandle (IndexBuffer_usage (m_usage copy)) = 0
            \<and> getIndexCount (IndexBuffer_usage (m_usage copy)) = 0
            \<and> getUsage (IndexBuffer_usage (m_usage copy)) = getUsage copy)
         \<and> (created \<longrightarrow> (\<forall>this2 dev2.
              update_buffer opengl_es dev1 this1 copy = Inr (False, this2, dev2) \<longrightarrow>
                IndexBuffer_copy opengl_es dev copy = Inr (this2, dev2)
                \<and> getNativeHandle this2 \<noteq> 0 \<and> getIndexCount this2 = getIndexCount copy
                \<and> getUsage this2 = getUsage copy))"
proof -
  have first: "IndexBuffer_copy opengl_es dev copy = Inr (IndexBuffer_usage (m_usage copy), dev1)"
    if "\<not> created"
  proof -
    have c': "create dev (IndexBuffer_usage (m_usage copy)) (m_size copy) = (False, this1, dev1)"
      using c that by simp
    from create_failure [OF c'] have "this1 = IndexBuffer_usage (m_usage copy)" by simp
    then show ?thesis
      using h s c' by (simp add: IndexBuffer_copy_def IndexBuffer_usage_def)
  qed
  have empty: "getNativeHandle (IndexBuffer_usage (m_usage copy)) = 0
            \<and> getIndexCount (IndexBuffer_usage (m_usage copy)) = 0
            \<and> getUsage (IndexBuffer_usage (m_usage copy)) = getUsage copy"
    by (simp add: getNativeHandle_def getIndexCount_def getUsage_def IndexBuffer_usage_def)
  have second: "IndexBuffer_copy opengl_es dev copy = Inr (this2, dev2)
                \<and> getNativeHandle this2 \<noteq> 0 \<and> getIndexCount this2 = getIndexCount copy
                \<and> getUsage this2 = getUsage copy"
    if "created" and u: "update_buffer opengl_es dev1 this1 copy = Inr (False, this2, dev2)"
    for this2 dev2
  proof -
    have c': "create dev (IndexBuffer_usage (m_usage copy)) (m_size copy) = (True, this1, dev1)"
      using c that by simp
    have k: "this2 = this1" using u by (rule update_buffer_this)
    from create_success [OF c'] k
    have "m_buffer this2 \<noteq> 0 \<and> m_size this2 = m_size copy \<and> m_usage this2 = m_usage copy"
      by (simp add: IndexBuffer_usage_def)
    moreover have "IndexBuffer_copy opengl_es dev copy = Inr (this2, dev2)"
      using h s c' u by (simp add: IndexBuffer_copy_def IndexBuffer_usage_def)
    ultimately show ?thesis
      by (simp add: getNativeHandle_def getIndexCount_def getUsage_def)
  qed
  from first empty second show ?thesis by blast
qed

theorem copy_failure_stages_witness:
  "m_buffer buffer1 \<noteq> 0 \<and> m_size buffer1 \<noteq> 0
   \<and> IndexBuffer_copy False ((example_device False [])\<lparr>gen_names := []\<rparr>) buffer1
       = Inr (IndexBuffer_usage Stream, (example_device False [])\<lparr>gen_names := []\<rparr>)
   \<and> (\<exists>this2 dev2. IndexBuffer_copy False (example_device False [False]) buffer1
                      = Inr (this2, dev2)
          \<and> getNativeHandle this2 \<noteq> 0 \<and> getIndexCount this2 = 3)"
proof -
  have h: "m_buffer buffer1 \<noteq> 0" and s: "m_size buffer1 \<noteq> 0" by (simp_all add: buffer1_def)
  have u: "m_usage buffer1 = Stream" by (simp add: buffer1_def)
  have n: "getIndexCount buffer1 = 3" by (simp add: getIndexCount_def buffer1_def)
  have c0: "create ((example_device False [])\<lparr>gen_names := []\<rparr>)
              (IndexBuffer_usage (m_usage buffer1)) (m_size buffer1)
            = (False, IndexBuffer_usage Stream, (example_device False [])\<lparr>gen_names := []\<rparr>)"
    by (simp add: create_def isAvailable_def IndexBuffer_usage_def gl_defs example_defs)
  from copy_failure_stages [OF h s c0, of False]
  have p0: "IndexBuffer_copy False ((example_device False [])\<lparr>gen_names := []\<rparr>) buffer1
       = Inr (IndexBuffer_usage Stream, (example_device False [])\<lparr>gen_names := []\<rparr>)"
    by (simp add: u)
  have "\<exists>this1 dev1. create (example_device False [False])
              (IndexBuffer_usage (m_usage buffer1)) (m_size buffer1) = (True, this1, dev1)
          \<and> (\<exists>this2 dev2. update_buffer False dev1 this1 buffer1 = Inr (False, this2, dev2))"
    by (simp add: create_def isAvailable_def IndexBuffer_usage_def update_buffer_def gl_defs
          example_defs sizeof_GLuint_def indices_in_def Let_def)
  then obtain this1 dev1 this2 dev2 where
    c1: "create (example_device False [False])
              (IndexBuffer_usage (m_usage buffer1)) (m_size buffer1) = (True, this1, dev1)"
    and u1: "update_buffer False dev1 this1 buffer1 = Inr (False, this2, dev2)"
    by blast
  from copy_failure_stages [OF h s c1, of False] u1
  have p1: "IndexBuffer_copy False (example_device False [False]) buffer1 = Inr (this2, dev2)
          \<and> getNativeHandle this2 \<noteq> 0 \<and> getIndexCount this2 = 3"
    by (simp add: n)
  from h s p0 p1 show ?thesis by blast
qed

end
